theory Spec2Isabelle
  imports Complex_Main
begin

section \<open>Data model of the curve engine (core.py)\<close>

text \<open>
  The Python source represents every entity as a string-keyed dictionary of floats.
  Here a point is a record of two reals, a segment is a tagged union with the two
  tags the constructors \<open>create_line_segment\<close> and \<open>create_arc_segment\<close> produce, and
  a curve is a record. Floating-point numbers are idealised as real numbers. A curve
  keeps its material as the material's name: the lookup of a material never fails and
  no function below reads it.
  The \<open>ValueError\<close>s the engine raises, the \<open>ZeroDivisionError\<close> of a float division
  and the \<open>KeyError\<close> of reading the centre of a line are the values of the type \<open>error\<close>.
\<close>

record point =
  px :: real
  py :: real

definition create_point :: "real \<Rightarrow> real \<Rightarrow> point" where
  "create_point a b = \<lparr>px = a, py = b\<rparr>"

datatype segment =
  Line point point
  | Arc point point point bool

fun seg_start :: "segment \<Rightarrow> point" where
  "seg_start (Line s e) = s"
| "seg_start (Arc s e c cw) = s"

fun seg_end :: "segment \<Rightarrow> point" where
  "seg_end (Line s e) = e"
| "seg_end (Arc s e c cw) = e"

definition create_line_segment :: "point \<Rightarrow> point \<Rightarrow> segment" where
  "create_line_segment s e = Line s e"

definition create_arc_segment :: "point \<Rightarrow> point \<Rightarrow> point \<Rightarrow> bool \<Rightarrow> segment" where
  "create_arc_segment s e c cw = Arc s e c cw"

datatype curve_kind = Open | Closed

record curve =
  elements :: "segment list"
  curve_type :: curve_kind
  name :: "string option"
  material :: "string option"

datatype error =
  InsufficientPointsError
  | DiscontinuityError nat
  | ClosureError
  | ZeroDivisionError
  | KeyError

subsection \<open>Measurement\<close>

definition point_distance :: "point \<Rightarrow> point \<Rightarrow> real" where
  "point_distance p1 p2 =
     (let dx = px p2 - px p1; dy = py p2 - py p1 in sqrt (dx\<^sup>2 + dy\<^sup>2))"

text \<open>
  \<open>np.arctan2\<close> is a library function; it is modelled by its mathematical definition,
  the angle of the vector \<open>(a, b)\<close> in the interval from \<open>-\<pi>\<close> (excluded) to \<open>\<pi>\<close>.
\<close>

definition arctan2 :: "real \<Rightarrow> real \<Rightarrow> real" where
  "arctan2 b a =
     (if 0 < a then arctan (b / a)
      else if a < 0 then (if 0 \<le> b then arctan (b / a) + pi else arctan (b / a) - pi)
      else if 0 < b then pi / 2
      else if b < 0 then - (pi / 2)
      else 0)"

fun arc_radius :: "segment \<Rightarrow> error + real" where
  "arc_radius (Arc s e c cw) = Inr (point_distance s c)"
| "arc_radius (Line s e) = Inl KeyError"

fun arc_angle :: "segment \<Rightarrow> error + real" where
  "arc_angle (Arc s e c cw) =
     (let start_angle = arctan2 (py s - py c) (px s - px c);
          end_angle = arctan2 (py e - py c) (px e - px c);
          angle = end_angle - start_angle;
          angle = (if cw \<and> angle > 0 then angle - 2 * pi
                   else if \<not> cw \<and> angle < 0 then angle + 2 * pi
                   else angle)
      in Inr \<bar>angle\<bar>)"
| "arc_angle (Line s e) = Inl KeyError"

subsection \<open>Validation\<close>

text \<open>
  The loop \<open>for i in range(len(elements) - 1)\<close> of \<open>validate_curve\<close>: it compares the end
  of element \<open>i\<close> with the start of element \<open>i + 1\<close> and raises at the first gap beyond
  the tolerance.
\<close>

fun continuity_loop :: "real \<Rightarrow> nat \<Rightarrow> segment list \<Rightarrow> error + unit" where
  "continuity_loop tol i (e1 # e2 # es) =
     (if point_distance (seg_end e1) (seg_start e2) > tol
      then Inl (DiscontinuityError i)
      else continuity_loop tol (Suc i) (e2 # es))"
| "continuity_loop tol i es = Inr ()"

definition closure_check :: "real \<Rightarrow> curve \<Rightarrow> error + bool" where
  "closure_check tol c =
     (if curve_type c = Closed \<and> length (elements c) > 0
      then (if point_distance (seg_start (hd (elements c))) (seg_end (last (elements c))) > tol
            then Inl ClosureError
            else Inr True)
      else Inr True)"

definition validate_curve :: "curve \<Rightarrow> real \<Rightarrow> error + bool" where
  "validate_curve c tol =
     (case (if length (elements c) > 1 then continuity_loop tol 0 (elements c) else Inr ()) of
        Inl e \<Rightarrow> Inl e
      | Inr u \<Rightarrow> closure_check tol c)"

definition default_tolerance :: real where
  "default_tolerance = 1 / 10 ^ 6"

definition create_curve ::
  "segment list \<Rightarrow> curve_kind \<Rightarrow> string option \<Rightarrow> string option \<Rightarrow> error + curve" where
  "create_curve els ct nm mat =
     (let c = \<lparr>elements = els, curve_type = ct, name = nm, material = mat\<rparr>
      in case validate_curve c default_tolerance of
           Inl e \<Rightarrow> Inl e
         | Inr ok \<Rightarrow> Inr c)"

section \<open>Factories (factories.py)\<close>

definition polyline_elements :: "point list \<Rightarrow> bool \<Rightarrow> segment list" where
  "polyline_elements points is_closed =
     (let els = map (\<lambda>i. create_line_segment (points ! i) (points ! (i + 1)))
                    [0..<length points - 1]
      in if is_closed then els @ [create_line_segment (last points) (hd points)] else els)"

definition create_polyline :: "point list \<Rightarrow> bool \<Rightarrow> string option \<Rightarrow> error + curve" where
  "create_polyline points is_closed nm =
     (if length points < 2 then Inl InsufficientPointsError
      else create_curve (polyline_elements points is_closed)
             (if is_closed then Closed else Open) nm None)"

subsection \<open>Wave profile\<close>

text \<open>
  One pass of the loop \<open>for wave in range(num_waves)\<close> of \<open>create_wave_profile\<close>; the
  state is the cursor \<open>current_x\<close> and the list \<open>points\<close>.
\<close>

definition wave_step ::
  "real \<Rightarrow> real \<Rightarrow> real \<Rightarrow> real \<Rightarrow> real \<Rightarrow> nat \<Rightarrow> real \<times> point list \<Rightarrow> real \<times> point list" where
  "wave_step top_width bottom_width height side_slope_width top_offset wave st =
     (let current_x = fst st; points = snd st;
          points = (if wave = 0 then points @ [create_point current_x height] else points);
          current_x = current_x + top_width;
          points = points @ [create_point current_x height];
          current_x = current_x + (side_slope_width - top_offset);
          points = points @ [create_point current_x 0];
          current_x = current_x + bottom_width;
          points = points @ [create_point current_x 0];
          current_x = current_x + (side_slope_width - top_offset);
          points = points @ [create_point current_x height]
      in (current_x, points))"

text \<open>
  The remainder branch. Python's float division raises \<open>ZeroDivisionError\<close> when
  \<open>side_slope_width - top_offset\<close> is zero.
\<close>

definition wave_remainder ::
  "real \<Rightarrow> real \<Rightarrow> real \<Rightarrow> real \<Rightarrow> real \<Rightarrow> real \<times> point list \<Rightarrow> error + point list" where
  "wave_remainder top_width height side_slope_width top_offset remainder st =
     (let current_x = fst st; points = snd st;
          remaining = remainder;
          took_top = (remaining \<ge> top_width);
          current_x = (if took_top then current_x + top_width else current_x);
          points = (if took_top then points @ [create_point current_x height] else points);
          remaining = (if took_top then remaining - top_width else remaining)
      in if remaining > 0
         then (if side_slope_width - top_offset = 0 then Inl ZeroDivisionError
               else (let slope_progress = min (remaining / (side_slope_width - top_offset)) 1;
                         slope_x = current_x + remaining;
                         slope_y = height * (1 - slope_progress)
                     in Inr (points @ [create_point slope_x slope_y])))
         else Inr points)"

text \<open>
  The point list \<open>create_wave_profile\<close> hands to the polyline factory. On floats,
  \<open>a // b\<close> is the floor of the quotient and \<open>a % b\<close> is \<open>a - b * floor (a / b)\<close>; both
  raise \<open>ZeroDivisionError\<close> for \<open>b = 0\<close>. \<open>range(n)\<close> is empty for \<open>n \<le> 0\<close>.
\<close>

definition wave_points :: "real \<Rightarrow> real \<Rightarrow> real \<Rightarrow> real \<Rightarrow> real \<Rightarrow> error + point list" where
  "wave_points total_width wave_width bottom_width top_width height =
     (if wave_width = 0 then Inl ZeroDivisionError
      else
       (let side_slope_width = (wave_width - bottom_width) / 2;
            top_offset = (bottom_width - top_width) / 2;
            num_waves = \<lfloor>total_width / wave_width\<rfloor>;
            remainder = total_width - wave_width * of_int \<lfloor>total_width / wave_width\<rfloor>;
            start_x = - top_width / 2;
            st = fold (wave_step top_width bottom_width height side_slope_width top_offset)
                   [0..<nat num_waves] (start_x, [])
        in if remainder > 0 \<and> num_waves > 0
           then wave_remainder top_width height side_slope_width top_offset remainder st
           else Inr (snd st)))"

definition create_wave_profile ::
  "real \<Rightarrow> real \<Rightarrow> real \<Rightarrow> real \<Rightarrow> real \<Rightarrow> string option \<Rightarrow> error + curve" where
  "create_wave_profile total_width wave_width bottom_width top_width height nm =
     (let nm = (case nm of None \<Rightarrow> ''Wave Profile'' | Some n \<Rightarrow> n)
      in case wave_points total_width wave_width bottom_width top_width height of
           Inl e \<Rightarrow> Inl e
         | Inr points \<Rightarrow> create_polyline points False (Some nm))"

subsection \<open>Closed wave profile\<close>

text \<open>
  The loop that rebuilds the points of the open profile from its elements: the first
  element gives its start and its end, every later one its end.
\<close>

definition corrugated_points_of :: "segment list \<Rightarrow> point list" where
  "corrugated_points_of els =
     fold (\<lambda>element pts. (if pts = [] then pts @ [seg_start element] else pts) @ [seg_end element])
       els []"

text \<open>
  The list \<open>points\<close> that \<open>create_closed_wave_profile\<close> builds from a non-empty list of
  corrugation points, in its two modes.
\<close>

definition closed_profile_points :: "point list \<Rightarrow> real option \<Rightarrow> real \<Rightarrow> point list" where
  "closed_profile_points corrugated_points depth height =
     (if depth \<noteq> None \<and> the depth > height
      then (let first_point = hd corrugated_points;
                last_point = last corrugated_points
            in [create_point (px first_point) (the depth),
                create_point (px last_point) (the depth),
                create_point (px last_point) (py last_point)]
               @ rev corrugated_points
               @ [create_point (px first_point) (py first_point)])
      else (let points = corrugated_points;
                last_point = last points;
                first_point = hd points;
                points = (if py last_point \<noteq> 0 then points @ [create_point (px last_point) 0]
                          else points);
                points = (if py first_point \<noteq> 0 then points @ [create_point (px first_point) 0]
                          else points)
            in points))"

text \<open>
  The body of \<open>create_closed_wave_profile\<close> from the point where the open profile has
  been obtained: it rebuilds the corrugation points, returns through the polyline factory
  at once when there are none, and otherwise closes the list built above.
\<close>

definition close_open_profile :: "curve \<Rightarrow> real option \<Rightarrow> real \<Rightarrow> string \<Rightarrow> error + curve" where
  "close_open_profile open_profile depth height nm =
     (let corrugated_points = corrugated_points_of (elements open_profile)
      in if corrugated_points = [] then create_polyline [] True (Some nm)
         else create_polyline (closed_profile_points corrugated_points depth height)
                True (Some nm))"

definition create_closed_wave_profile ::
  "real \<Rightarrow> real \<Rightarrow> real \<Rightarrow> real \<Rightarrow> real \<Rightarrow> real option \<Rightarrow> string option \<Rightarrow> error + curve" where
  "create_closed_wave_profile total_width wave_width bottom_width top_width height depth nm =
     (let nm = (case nm of None \<Rightarrow> ''Closed Wave Profile'' | Some n \<Rightarrow> n)
      in case create_wave_profile total_width wave_width bottom_width top_width height
                (Some (nm @ ''_open'')) of
           Inl e \<Rightarrow> Inl e
         | Inr open_profile \<Rightarrow> close_open_profile open_profile depth height nm)"

section \<open>SVG viewer (visualization.py)\<close>

record svg_viewer =
  v_width :: real
  v_height :: real
  v_margin :: real
  view_width :: real
  view_height :: real

definition SVGCurveViewer :: "real \<Rightarrow> real \<Rightarrow> real \<Rightarrow> svg_viewer" where
  "SVGCurveViewer w h m =
     \<lparr>v_width = w, v_height = h, v_margin = m,
      view_width = w - 2 * m, view_height = h - 2 * m\<rparr>"

record bounds =
  min_x :: real
  max_x :: real
  min_y :: real
  max_y :: real

text \<open>A transform is a function on coordinates that carries its scale factor as attribute.\<close>

record transform =
  tf_apply :: "real \<Rightarrow> real \<Rightarrow> real \<times> real"
  tf_scale :: real

text \<open>
  The commands of an SVG path before they are formatted and joined into a string:
  \<open>M x y\<close>, \<open>L x y\<close>, \<open>A rx ry rotation large_arc_flag sweep_flag x y\<close> and \<open>Z\<close>.
\<close>

datatype path_command =
  MoveTo real real
  | LineTo real real
  | ArcTo real real real nat nat real real
  | ClosePath

fun svg_path_loop :: "transform \<Rightarrow> nat \<Rightarrow> segment list \<Rightarrow> error + path_command list" where
  "svg_path_loop t i [] = Inr []"
| "svg_path_loop t i (Line s e # es) =
     (let (start_x, start_y) = tf_apply t (px s) (py s);
          (end_x, end_y) = tf_apply t (px e) (py e);
          cmds = (if i = 0 then [MoveTo start_x start_y] else []) @ [LineTo end_x end_y]
      in case svg_path_loop t (Suc i) es of
           Inl err \<Rightarrow> Inl err
         | Inr rest \<Rightarrow> Inr (cmds @ rest))"
| "svg_path_loop t i (Arc s e c cw # es) =
     (let (start_x, start_y) = tf_apply t (px s) (py s);
          (end_x, end_y) = tf_apply t (px e) (py e);
          cmds = (if i = 0 then [MoveTo start_x start_y] else [])
      in case arc_radius (Arc s e c cw) of
           Inl err \<Rightarrow> Inl err
         | Inr r \<Rightarrow>
            (let radius = r * tf_scale t
             in case arc_angle (Arc s e c cw) of
                  Inl err \<Rightarrow> Inl err
                | Inr a \<Rightarrow>
                   (let large_arc_flag = (if a > pi then 1 else 0);
                        sweep_flag = (if cw then 0 else 1);
                        cmds = cmds @ [ArcTo radius radius 0 large_arc_flag sweep_flag end_x end_y]
                    in case svg_path_loop t (Suc i) es of
                         Inl err \<Rightarrow> Inl err
                       | Inr rest \<Rightarrow> Inr (cmds @ rest))))"

definition curve_to_svg_path :: "curve \<Rightarrow> transform \<Rightarrow> error + path_command list" where
  "curve_to_svg_path c t =
     (case svg_path_loop t 0 (elements c) of
        Inl err \<Rightarrow> Inl err
      | Inr path_commands \<Rightarrow>
          Inr (if curve_type c = Closed then path_commands @ [ClosePath] else path_commands))"

subsection \<open>Bounds\<close>

fun element_points :: "segment \<Rightarrow> error + point list" where
  "element_points (Line s e) = Inr [s, e]"
| "element_points (Arc s e c cw) =
     (case arc_radius (Arc s e c cw) of
        Inl err \<Rightarrow> Inl err
      | Inr radius \<Rightarrow>
          Inr ([s, e] @
               [create_point (px c - radius) (py c),
                create_point (px c + radius) (py c),
                create_point (px c) (py c - radius),
                create_point (px c) (py c + radius)]))"

fun collect_elements :: "segment list \<Rightarrow> point list \<Rightarrow> error + point list" where
  "collect_elements [] all_points = Inr all_points"
| "collect_elements (element # es) all_points =
     (case element_points element of
        Inl err \<Rightarrow> Inl err
      | Inr ps \<Rightarrow> collect_elements es (all_points @ ps))"

fun collect_curves :: "curve list \<Rightarrow> point list \<Rightarrow> error + point list" where
  "collect_curves [] all_points = Inr all_points"
| "collect_curves (c # cs) all_points =
     (case collect_elements (elements c) all_points of
        Inl err \<Rightarrow> Inl err
      | Inr all_points \<Rightarrow> collect_curves cs all_points)"

text \<open>Python's \<open>min\<close> and \<open>max\<close> of a non-empty list: a left-to-right scan.\<close>

fun py_min :: "real list \<Rightarrow> real" where
  "py_min [] = 0"
| "py_min (v # vs) = fold (\<lambda>w m. if w < m then w else m) vs v"

fun py_max :: "real list \<Rightarrow> real" where
  "py_max [] = 0"
| "py_max (v # vs) = fold (\<lambda>w m. if w > m then w else m) vs v"

definition calculate_bounds :: "curve list \<Rightarrow> error + bounds" where
  "calculate_bounds curves =
     (case collect_curves curves [] of
        Inl err \<Rightarrow> Inl err
      | Inr all_points \<Rightarrow>
          (if all_points = [] then Inr \<lparr>min_x = 0, max_x = 1, min_y = 0, max_y = 1\<rparr>
           else (let xs = map px all_points; ys = map py all_points
                 in Inr \<lparr>min_x = py_min xs, max_x = py_max xs,
                         min_y = py_min ys, max_y = py_max ys\<rparr>)))"

subsection \<open>Transform\<close>

definition create_transform :: "svg_viewer \<Rightarrow> bounds \<Rightarrow> transform" where
  "create_transform self b =
     (let data_width = max_x b - min_x b;
          data_height = max_y b - min_y b;
          data_width = (if data_width = 0 then 1 else data_width);
          data_height = (if data_height = 0 then 1 else data_height);
          padding = 1 / 10;
          data_width = data_width * (1 + padding);
          data_height = data_height * (1 + padding);
          scale_x = view_width self / data_width;
          scale_y = view_height self / data_height;
          scale = min scale_x scale_y;
          center_x = (min_x b + max_x b) / 2;
          center_y = (min_y b + max_y b) / 2;
          offset_x = v_width self / 2 - center_x * scale;
          offset_y = v_height self / 2 + center_y * scale
      in \<lparr>tf_apply = (\<lambda>a b. (a * scale + offset_x, - b * scale + offset_y)),
          tf_scale = scale\<rparr>)"

section \<open>The specification's description of the bounds\<close>

text \<open>
  Section 4.5 of the specification: every segment contributes its start and its end,
  an arc also the four cardinal extrema of its circle, whose radius is the distance
  from the start to the centre.
\<close>

fun spec_segment_points :: "segment \<Rightarrow> point list" where
  "spec_segment_points (Line s e) = [s, e]"
| "spec_segment_points (Arc s e c cw) =
     [s, e,
      \<lparr>px = px c - point_distance s c, py = py c\<rparr>,
      \<lparr>px = px c + point_distance s c, py = py c\<rparr>,
      \<lparr>px = px c, py = py c - point_distance s c\<rparr>,
      \<lparr>px = px c, py = py c + point_distance s c\<rparr>]"

definition spec_collected_points :: "curve list \<Rightarrow> point list" where
  "spec_collected_points curves = concat (map (\<lambda>c. concat (map spec_segment_points (elements c))) curves)"

definition spec_bounds :: "curve list \<Rightarrow> bounds" where
  "spec_bounds curves =
     (if spec_collected_points curves = [] then \<lparr>min_x = 0, max_x = 1, min_y = 0, max_y = 1\<rparr>
      else \<lparr>min_x = Min (px ` set (spec_collected_points curves)),
            max_x = Max (px ` set (spec_collected_points curves)),
            min_y = Min (py ` set (spec_collected_points curves)),
            max_y = Max (py ` set (spec_collected_points curves))\<rparr>)"

section \<open>Auxiliary definitions for the proofs\<close>

text \<open>The line segments between consecutive points, by recursion on the point list.\<close>

fun chain :: "point list \<Rightarrow> segment list" where
  "chain (p # q # ps) = Line p q # chain (q # ps)"
| "chain ps = []"

text \<open>The image of a point under a transform, as a point.\<close>

definition apply_transform :: "transform \<Rightarrow> point \<Rightarrow> point" where
  "apply_transform t p = \<lparr>px = fst (tf_apply t (px p) (py p)), py = snd (tf_apply t (px p) (py p))\<rparr>"

text \<open>
  Section 4.6 of the specification, for one arc element: the arc command carries the arc's
  radius times the transform's scale, the large-arc flag 1 when the arc's angle exceeds
  \<open>\<pi>\<close>, the sweep flag 0 when the arc is clockwise, and the transformed end point.
\<close>

fun is_arc :: "segment \<Rightarrow> bool" where
  "is_arc (Arc s e c cw) = True"
| "is_arc (Line s e) = False"

fun is_arc_command :: "path_command \<Rightarrow> bool" where
  "is_arc_command (ArcTo rx ry rot la sw ex ey) = True"
| "is_arc_command cmd = False"

fun spec_arc_command :: "transform \<Rightarrow> segment \<Rightarrow> path_command option" where
  "spec_arc_command t (Arc s e c cw) =
     (case (arc_radius (Arc s e c cw), arc_angle (Arc s e c cw)) of
        (Inr r, Inr a) \<Rightarrow>
          Some (ArcTo (r * tf_scale t) (r * tf_scale t) 0
                  (if a > pi then 1 else 0) (if cw then 0 else 1)
                  (fst (tf_apply t (px e) (py e))) (snd (tf_apply t (px e) (py e))))
      | _ \<Rightarrow> None)"
| "spec_arc_command t (Line s e) = None"

section \<open>Properties of validation and of the polyline factory\<close>

lemma point_distance_self: "point_distance p p = 0"
  by (simp add: point_distance_def)

lemma point_distance_nonneg: "0 \<le> point_distance p q"
  by (simp add: point_distance_def Let_def)

lemma map_upt_chain:
  "map (\<lambda>i. Line (ps ! i) (ps ! (i + 1))) [0..<length ps - 1] = chain ps"
proof (induction ps rule: chain.induct)
  case (1 p q ps)
  have "[0..<length (p # q # ps) - 1] = 0 # map Suc [0..<length (q # ps) - 1]"
    by (simp add: upt_conv_Cons map_Suc_upt del: upt_Suc)
  then show ?case
    using "1.IH" by (simp add: comp_def del: upt_Suc)
qed simp_all

lemma polyline_elements_chain:
  "polyline_elements ps cl =
     (if cl then chain ps @ [Line (last ps) (hd ps)] else chain ps)"
  using map_upt_chain [of ps] by (simp add: polyline_elements_def create_line_segment_def)

lemma chain_length: "length (chain ps) = length ps - 1"
  by (induction ps rule: chain.induct) simp_all

lemma continuity_chain_snoc:
  "0 \<le> tol \<Longrightarrow> continuity_loop tol i (chain (p # ps) @ [Line (last (p # ps)) q]) = Inr ()"
proof (induction ps arbitrary: p i)
  case Nil
  then show ?case by simp
next
  case (Cons r rs)
  show ?case
  proof (cases rs)
    case Nil
    with Cons.prems show ?thesis by (simp add: point_distance_self)
  next
    case (Cons s ss)
    with Cons.IH [OF Cons.prems, of "Suc i" r] Cons.prems show ?thesis
      by (simp add: point_distance_self)
  qed
qed

lemma continuity_chain:
  "0 \<le> tol \<Longrightarrow> continuity_loop tol i (chain ps) = Inr ()"
proof (induction ps arbitrary: i rule: chain.induct)
  case (1 p q ps)
  then show ?case by (cases ps) (simp_all add: point_distance_self)
qed simp_all

lemma chain_nonempty: "2 \<le> length ps \<Longrightarrow> chain ps \<noteq> []"
  by (cases ps rule: chain.cases) simp_all

lemma hd_chain_start: "2 \<le> length ps \<Longrightarrow> seg_start (hd (chain ps)) = hd ps"
  by (cases ps rule: chain.cases) simp_all

lemma polyline_elements_continuous:
  assumes "0 \<le> tol"
  shows "continuity_loop tol i (polyline_elements ps cl) = Inr ()"
proof (cases ps)
  case Nil
  then show ?thesis by (simp add: polyline_elements_chain)
next
  case (Cons p qs)
  then show ?thesis
    using continuity_chain [OF assms, of i ps] continuity_chain_snoc [OF assms, of i p qs "hd ps"]
    by (simp add: polyline_elements_chain)
qed

lemma polyline_elements_closure:
  assumes "2 \<le> length ps"
  shows "point_distance (seg_start (hd (polyline_elements ps True)))
           (seg_end (last (polyline_elements ps True))) = 0"
  using assms chain_nonempty [OF assms] hd_chain_start [OF assms]
  by (simp add: polyline_elements_chain point_distance_self)

lemma validate_polyline_elements:
  assumes "2 \<le> length ps" and "0 \<le> tol"
  shows "validate_curve \<lparr>elements = polyline_elements ps cl,
           curve_type = (if cl then Closed else Open), name = nm, material = mat\<rparr> tol = Inr True"
  using polyline_elements_continuous [OF assms(2), of 0 ps cl] polyline_elements_closure [OF assms(1)]
    assms(2)
  by (simp add: validate_curve_def closure_check_def)

lemma create_polyline_success:
  assumes "2 \<le> length ps"
  shows "create_polyline ps cl nm =
           Inr \<lparr>elements = polyline_elements ps cl,
                curve_type = (if cl then Closed else Open), name = nm, material = None\<rparr>"
proof -
  have "0 \<le> default_tolerance" by (simp add: default_tolerance_def)
  from validate_polyline_elements [OF assms this, of cl nm None] assms show ?thesis
    by (simp add: create_polyline_def create_curve_def Let_def)
qed




subsection \<open>Claims about the validator and the polyline factory\<close>

text \<open>
  C6 as the specification states it: every curve with zero or one elements validates,
  Open or Closed. The closure check of \<open>validate_curve\<close> runs whenever a closed curve has
  at least one element, so a closed curve made of one line whose ends differ is rejected.
\<close>

theorem validate_single_closed_counterexample:
  "validate_curve \<lparr>elements = [Line \<lparr>px = 0, py = 0\<rparr> \<lparr>px = 1, py = 0\<rparr>],
      curve_type = Closed, name = None, material = None\<rparr> default_tolerance = Inl ClosureError"
  by (simp add: validate_curve_def closure_check_def point_distance_def default_tolerance_def)

text \<open>
  C6, amended: a curve with zero or one elements never raises a discontinuity error;
  validation succeeds unless the curve is Closed, has exactly one element, and the
  distance between that element's start and end exceeds the tolerance, in which case the
  closure error is raised.
\<close>

theorem validate_short_curve:
  assumes "length (elements c) \<le> 1"
  shows "validate_curve c tol =
           (if curve_type c = Closed \<and> length (elements c) = 1 \<and>
               point_distance (seg_start (hd (elements c))) (seg_end (hd (elements c))) > tol
            then Inl ClosureError else Inr True)"
proof (cases "elements c")
  case Nil
  then show ?thesis by (simp add: validate_curve_def closure_check_def)
next
  case (Cons e es)
  with assms have "es = []" by simp
  with Cons show ?thesis by (simp add: validate_curve_def closure_check_def)
qed

theorem validate_short_curve_witness:
  "length (elements \<lparr>elements = [Line \<lparr>px = 0, py = 0\<rparr> \<lparr>px = 1, py = 0\<rparr>],
      curve_type = Open, name = None, material = None\<rparr>) \<le> 1 \<and>
   validate_curve \<lparr>elements = [Line \<lparr>px = 0, py = 0\<rparr> \<lparr>px = 1, py = 0\<rparr>],
      curve_type = Open, name = None, material = None\<rparr> default_tolerance = Inr True"
  using validate_short_curve [of "\<lparr>elements = [Line \<lparr>px = 0, py = 0\<rparr> \<lparr>px = 1, py = 0\<rparr>],
      curve_type = Open, name = None, material = None\<rparr>" default_tolerance]
  by simp

text \<open>
  C8: the polyline factory raises the insufficient-points error exactly when it is given
  fewer than two points, whatever the closed flag; with fewer than two points it returns
  no curve.
\<close>

theorem create_polyline_insufficient_iff:
  "(create_polyline ps cl nm = Inl InsufficientPointsError) = (length ps < 2) \<and>
   (length ps < 2 \<longrightarrow> \<not> (\<exists>c. create_polyline ps cl nm = Inr c))"
proof (cases "length ps < 2")
  case True
  then show ?thesis by (simp add: create_polyline_def)
next
  case False
  then have "2 \<le> length ps" by simp
  from create_polyline_success [OF this, of cl nm] False show ?thesis by simp
qed

theorem create_polyline_insufficient_iff_witness:
  "length [\<lparr>px = 0, py = 0\<rparr>] < 2 \<and>
   create_polyline [\<lparr>px = 0, py = 0\<rparr>] True None = Inl InsufficientPointsError \<and>
   \<not> (\<exists>c. create_polyline [\<lparr>px = 0, py = 0\<rparr>] True None = Inr c)"
  using create_polyline_insufficient_iff [of "[\<lparr>px = 0, py = 0\<rparr>]" True None]
  by simp



section \<open>Arc measurement\<close>

lemma arctan2_bounds: "- pi < arctan2 b a \<and> arctan2 b a \<le> pi"
proof -
  have lo: "- (pi / 2) < arctan (b / a)" and hi: "arctan (b / a) < pi / 2"
    by (rule arctan_lbound, rule arctan_ubound)
  have neg: "a < 0 \<Longrightarrow> 0 \<le> b \<Longrightarrow> arctan (b / a) \<le> 0"
    by (simp add: divide_nonneg_neg)
  have pos: "a < 0 \<Longrightarrow> b < 0 \<Longrightarrow> 0 < arctan (b / a)"
    by (simp add: divide_neg_neg)
  show ?thesis
    using lo hi neg pos pi_gt_zero by (auto simp: arctan2_def)
qed

text \<open>
  C3: for every arc segment (any start, end and centre, either clockwise flag),
  \<open>arc_angle\<close> returns a value between \<open>0\<close> and \<open>2\<pi>\<close>; it is never negative.
\<close>

theorem arc_angle_range:
  "\<exists>a. arc_angle (Arc s e c cw) = Inr a \<and> 0 \<le> a \<and> a \<le> 2 * pi"
proof -
  let ?sa = "arctan2 (py s - py c) (px s - px c)"
  let ?ea = "arctan2 (py e - py c) (px e - px c)"
  have "- pi < ?sa" "?sa \<le> pi" "- pi < ?ea" "?ea \<le> pi"
    using arctan2_bounds by simp_all
  then show ?thesis
    by (auto simp: Let_def abs_if)
qed

section \<open>Coordinate transform\<close>

lemma create_transform_apply:
  "tf_apply (create_transform v b) x1 y1 =
     (x1 * tf_scale (create_transform v b)
        + (v_width v / 2 - (min_x b + max_x b) / 2 * tf_scale (create_transform v b)),
      - y1 * tf_scale (create_transform v b)
        + (v_height v / 2 + (min_y b + max_y b) / 2 * tf_scale (create_transform v b)))"
  by (simp add: create_transform_def Let_def)

lemma create_transform_distance_abs:
  "point_distance (apply_transform (create_transform v b) p) (apply_transform (create_transform v b) q)
     = \<bar>tf_scale (create_transform v b)\<bar> * point_distance p q"
proof -
  let ?s = "tf_scale (create_transform v b)"
  have "(px q * ?s - px p * ?s)\<^sup>2 + (py p * ?s - py q * ?s)\<^sup>2
          = ?s\<^sup>2 * ((px q - px p)\<^sup>2 + (py q - py p)\<^sup>2)"
    by (simp add: power2_eq_square algebra_simps)
  then show ?thesis
    by (simp add: point_distance_def apply_transform_def create_transform_apply Let_def
        real_sqrt_mult)
qed

lemma create_transform_scale_nonneg:
  assumes "min_x b \<le> max_x b" "min_y b \<le> max_y b" "0 \<le> view_width v" "0 \<le> view_height v"
  shows "0 \<le> tf_scale (create_transform v b)"
  using assms by (simp add: create_transform_def Let_def)

text \<open>
  C10, amended: for bounds whose minima do not exceed their maxima and a viewer whose
  view width and view height are not negative, the transform is a similarity of ratio
  \<open>scale\<close>: the distance between the images of two points is the scale times the
  distance between the points.
\<close>

theorem create_transform_similarity:
  assumes "min_x b \<le> max_x b" "min_y b \<le> max_y b" "0 \<le> view_width v" "0 \<le> view_height v"
  shows "point_distance (apply_transform (create_transform v b) p)
           (apply_transform (create_transform v b) q)
         = tf_scale (create_transform v b) * point_distance p q"
  using create_transform_scale_nonneg [OF assms] create_transform_distance_abs [of v b p q]
  by simp

lemma inverted_scale:
  "tf_scale (create_transform (SVGCurveViewer 800 600 50) \<lparr>min_x = 1, max_x = 0, min_y = 0, max_y = 1\<rparr>)
     = - (7000 / 11)"
  by (simp add: create_transform_def SVGCurveViewer_def Let_def)

text \<open>
  C10 as the specification states it, for any bounds: with inverted bounds
  (\<open>min_x > max_x\<close>) the scale is negative, and a distance is not.
\<close>

theorem create_transform_inverted_bounds_counterexample:
  "point_distance
     (apply_transform (create_transform (SVGCurveViewer 800 600 50)
        \<lparr>min_x = 1, max_x = 0, min_y = 0, max_y = 1\<rparr>) \<lparr>px = 0, py = 0\<rparr>)
     (apply_transform (create_transform (SVGCurveViewer 800 600 50)
        \<lparr>min_x = 1, max_x = 0, min_y = 0, max_y = 1\<rparr>) \<lparr>px = 1, py = 0\<rparr>)
   \<noteq> tf_scale (create_transform (SVGCurveViewer 800 600 50)
        \<lparr>min_x = 1, max_x = 0, min_y = 0, max_y = 1\<rparr>) * point_distance \<lparr>px = 0, py = 0\<rparr> \<lparr>px = 1, py = 0\<rparr>"
  unfolding create_transform_distance_abs inverted_scale
  by (simp add: point_distance_def)

theorem create_transform_similarity_witness:
  "point_distance
     (apply_transform (create_transform (SVGCurveViewer 800 600 50)
        \<lparr>min_x = 0, max_x = 1, min_y = 0, max_y = 1\<rparr>) \<lparr>px = 0, py = 0\<rparr>)
     (apply_transform (create_transform (SVGCurveViewer 800 600 50)
        \<lparr>min_x = 0, max_x = 1, min_y = 0, max_y = 1\<rparr>) \<lparr>px = 1, py = 0\<rparr>)
   = tf_scale (create_transform (SVGCurveViewer 800 600 50)
        \<lparr>min_x = 0, max_x = 1, min_y = 0, max_y = 1\<rparr>) * point_distance \<lparr>px = 0, py = 0\<rparr> \<lparr>px = 1, py = 0\<rparr>"
  using create_transform_similarity [of "\<lparr>min_x = 0, max_x = 1, min_y = 0, max_y = 1\<rparr>"
     "SVGCurveViewer 800 600 50" "\<lparr>px = 0, py = 0\<rparr>" "\<lparr>px = 1, py = 0\<rparr>"]
  by (simp add: SVGCurveViewer_def)

section \<open>Bounds\<close>

lemma py_min_Min: "xs \<noteq> [] \<Longrightarrow> py_min xs = Min (set xs)"
proof (cases xs)
  case (Cons v vs)
  have "(\<lambda>w m. if w < m then w else m) = (min :: real \<Rightarrow> real \<Rightarrow> real)"
    by (auto simp: fun_eq_iff min_def)
  with Cons Min.set_eq_fold [of v vs] show ?thesis by simp
qed simp

lemma py_max_Max: "xs \<noteq> [] \<Longrightarrow> py_max xs = Max (set xs)"
proof (cases xs)
  case (Cons v vs)
  have "(\<lambda>w m. if w > m then w else m) = (max :: real \<Rightarrow> real \<Rightarrow> real)"
    by (auto simp: fun_eq_iff max_def)
  with Cons Max.set_eq_fold [of v vs] show ?thesis by simp
qed simp

lemma element_points_spec: "element_points el = Inr (spec_segment_points el)"
  by (cases el) (simp_all add: create_point_def)

lemma collect_elements_spec:
  "collect_elements es acc = Inr (acc @ concat (map spec_segment_points es))"
  by (induction es arbitrary: acc) (simp_all add: element_points_spec)

lemma collect_curves_spec:
  "collect_curves cs acc = Inr (acc @ spec_collected_points cs)"
  by (induction cs arbitrary: acc) (simp_all add: collect_elements_spec spec_collected_points_def)

text \<open>
  C5: \<open>calculate_bounds\<close> returns the componentwise minimum and maximum of the collected
  points, where every segment contributes its start and end and every arc also the four
  cardinal extrema of its circle; when no point is collected, as for the empty list, it
  returns the fallback box \<open>{0, 1, 0, 1}\<close>.
\<close>

theorem calculate_bounds_spec:
  "calculate_bounds curves = Inr (spec_bounds curves) \<and>
   calculate_bounds [] = Inr \<lparr>min_x = 0, max_x = 1, min_y = 0, max_y = 1\<rparr>"
  by (simp add: calculate_bounds_def collect_curves_spec spec_bounds_def Let_def
      py_min_Min py_max_Max spec_collected_points_def)

section \<open>Path emission\<close>

lemma arc_angle_defined: "\<exists>a. arc_angle (Arc s e c cw) = Inr a"
  by (simp add: Let_def)

lemma svg_path_loop_arcs:
  "\<exists>cmds. svg_path_loop t i es = Inr cmds \<and>
      map Some (filter is_arc_command cmds) = map (spec_arc_command t) (filter is_arc es) \<and>
      ClosePath \<notin> set cmds"
proof (induction es arbitrary: i)
  case Nil
  show ?case by simp
next
  case (Cons el es)
  from Cons.IH [of "Suc i"] obtain rest where
    rest: "svg_path_loop t (Suc i) es = Inr rest"
      "map Some (filter is_arc_command rest) = map (spec_arc_command t) (filter is_arc es)"
      "ClosePath \<notin> set rest"
    by blast
  show ?case
  proof (cases el)
    case (Line s e)
    with rest show ?thesis by (simp add: Let_def split: prod.splits)
  next
    case (Arc s e c cw)
    from arc_angle_defined [of s e c cw] obtain a where a: "arc_angle (Arc s e c cw) = Inr a"
      by blast
    with Arc rest show ?thesis
      by (simp add: Let_def del: arc_angle.simps split: prod.splits)
  qed
qed

text \<open>
  C4: for every curve and transform, the arc commands of the emitted path are, in order,
  the commands of the curve's arc elements, each with radius \<open>arc_radius\<close> times the
  scale, large-arc flag 1 exactly when \<open>arc_angle\<close> exceeds \<open>\<pi>\<close> and sweep flag 0
  exactly when the element is clockwise; the close-path command is present, as the last
  command, exactly when the curve is Closed.
\<close>

theorem curve_to_svg_path_arcs:
  "\<exists>cmds. curve_to_svg_path c t = Inr cmds \<and>
      map Some (filter is_arc_command cmds) = map (spec_arc_command t) (filter is_arc (elements c)) \<and>
      (ClosePath \<in> set cmds) = (curve_type c = Closed) \<and>
      (curve_type c = Closed) = (cmds \<noteq> [] \<and> last cmds = ClosePath)"
proof -
  from svg_path_loop_arcs [of t 0 "elements c"] obtain cmds where
    cmds: "svg_path_loop t 0 (elements c) = Inr cmds"
      "map Some (filter is_arc_command cmds) = map (spec_arc_command t) (filter is_arc (elements c))"
      "ClosePath \<notin> set cmds"
    by blast
  have "cmds \<noteq> [] \<Longrightarrow> last cmds \<noteq> ClosePath"
    using cmds(3) last_in_set by metis
  with cmds show ?thesis
    by (auto simp: curve_to_svg_path_def)
qed

lemma spec_arc_command_eq:
  "spec_arc_command t (Arc s e c cw) =
     Some (ArcTo (point_distance s c * tf_scale t) (point_distance s c * tf_scale t) 0
        (if (\<exists>a. arc_angle (Arc s e c cw) = Inr a \<and> a > pi) then 1 else 0) (if cw then 0 else 1)
        (fst (tf_apply t (px e) (py e))) (snd (tf_apply t (px e) (py e))))"
  using arc_angle_defined [of s e c cw] by (auto simp del: arc_angle.simps)

section \<open>Wave profile\<close>





lemma create_wave_profile_points:
  assumes "wave_points tw ww bw tpw h = Inr pts" "2 \<le> length pts"
  shows "create_wave_profile tw ww bw tpw h nm =
           Inr \<lparr>elements = polyline_elements pts False, curve_type = Open,
                name = Some (case nm of None \<Rightarrow> ''Wave Profile'' | Some n \<Rightarrow> n), material = None\<rparr>"
  using assms create_polyline_success [OF assms(2), of False]
  by (simp add: create_wave_profile_def)





text \<open>
  When \<open>wave_width + top_width = 2 * bottom_width\<close> the partial slope of the remainder
  divides by zero.
\<close>

lemma create_wave_profile_zero_division:
  "create_wave_profile (15 / 2) 3 2 1 1 None = Inl ZeroDivisionError"
proof -
  have "\<lfloor>15 / 2 / 3 :: real\<rfloor> = 2" by simp
  then show ?thesis
    by (simp add: create_wave_profile_def wave_points_def wave_remainder_def Let_def)
qed

section \<open>Closed wave profile\<close>

lemma corrugated_fold_nonempty:
  "acc \<noteq> [] \<Longrightarrow>
   fold (\<lambda>element pts. (if pts = [] then pts @ [seg_start element] else pts) @ [seg_end element])
     (chain (p # ps)) acc = acc @ ps"
proof (induction ps arbitrary: p acc)
  case Nil
  show ?case by simp
next
  case (Cons q qs)
  from Cons.IH [of "acc @ [q]" q] Cons.prems show ?case by simp
qed

lemma corrugated_points_of_chain:
  assumes "2 \<le> length ps"
  shows "corrugated_points_of (chain ps) = ps"
proof -
  from assms obtain p q qs where ps: "ps = p # q # qs"
    by (cases ps rule: chain.cases) simp_all
  from corrugated_fold_nonempty [of "[p, q]" q qs] show ?thesis
    unfolding corrugated_points_of_def ps by simp
qed

lemma close_open_profile_capped:
  assumes "2 \<le> length cps" and "h < d"
  shows "close_open_profile
           \<lparr>elements = polyline_elements cps False, curve_type = Open, name = n1, material = None\<rparr>
           (Some d) h nm =
         create_polyline
           ([create_point (px (hd cps)) d, create_point (px (last cps)) d,
             create_point (px (last cps)) (py (last cps))]
            @ rev cps @ [create_point (px (hd cps)) (py (hd cps))]) True (Some nm)"
proof -
  have "corrugated_points_of (polyline_elements cps False) = cps"
    using corrugated_points_of_chain [OF assms(1)] by (simp add: polyline_elements_chain)
  moreover have "cps \<noteq> []" using assms(1) by auto
  ultimately show ?thesis
    using assms(2) by (simp add: close_open_profile_def closed_profile_points_def Let_def)
qed

lemma create_closed_wave_profile_capped:
  assumes "wave_points tw ww bw tpw h = Inr cps" and "2 \<le> length cps" and "h < d"
  shows "create_closed_wave_profile tw ww bw tpw h (Some d) nm =
         create_polyline
           ([create_point (px (hd cps)) d, create_point (px (last cps)) d,
             create_point (px (last cps)) (py (last cps))]
            @ rev cps @ [create_point (px (hd cps)) (py (hd cps))]) True
           (Some (case nm of None \<Rightarrow> ''Closed Wave Profile'' | Some n \<Rightarrow> n))"
  using create_wave_profile_points [OF assms(1,2)] close_open_profile_capped [OF assms(2,3)]
  by (simp add: create_closed_wave_profile_def Let_def)

text \<open>
  C2, amended: in capped mode (a depth is given and exceeds the height) the closed-profile
  builder hands to the closed polyline factory, in order: \<open>(first.x, depth)\<close>,
  \<open>(last.x, depth)\<close>, \<open>(last.x, last.y)\<close>, the corrugation points in reverse order, and
  then once more the point \<open>(first.x, first.y)\<close>; the factory adds the closing edge back to
  \<open>(first.x, depth)\<close>. Here the corrugation points are the points of the wave profile,
  of which there are at least two.
\<close>

theorem create_closed_wave_profile_capped_points:
  assumes "wave_points tw ww bw tpw h = Inr cps" and "2 \<le> length cps" and "h < d"
  shows "\<exists>c. create_closed_wave_profile tw ww bw tpw h (Some d) nm = Inr c \<and>
           curve_type c = Closed \<and>
           elements c = polyline_elements
             ([create_point (px (hd cps)) d, create_point (px (last cps)) d,
               create_point (px (last cps)) (py (last cps))]
              @ rev cps @ [create_point (px (hd cps)) (py (hd cps))]) True"
proof -
  let ?pts = "[create_point (px (hd cps)) d, create_point (px (last cps)) d,
               create_point (px (last cps)) (py (last cps))]
              @ rev cps @ [create_point (px (hd cps)) (py (hd cps))]"
  have "2 \<le> length ?pts" by simp
  from create_polyline_success [OF this, of True] create_closed_wave_profile_capped [OF assms, of nm]
  show ?thesis by simp
qed

lemma wave_points_one_wave:
  "wave_points 4 4 2 1 1 =
     Inr [\<lparr>px = - 1 / 2, py = 1\<rparr>, \<lparr>px = 1 / 2, py = 1\<rparr>, \<lparr>px = 1, py = 0\<rparr>,
          \<lparr>px = 3, py = 0\<rparr>, \<lparr>px = 7 / 2, py = 1\<rparr>]"
  by (simp add: wave_points_def wave_step_def create_point_def Let_def)

theorem create_closed_wave_profile_capped_points_witness:
  "\<exists>c. create_closed_wave_profile 4 4 2 1 1 (Some 2) None = Inr c \<and>
           curve_type c = Closed \<and>
           elements c = polyline_elements
             [\<lparr>px = - 1 / 2, py = 2\<rparr>, \<lparr>px = 7 / 2, py = 2\<rparr>, \<lparr>px = 7 / 2, py = 1\<rparr>,
              \<lparr>px = 7 / 2, py = 1\<rparr>, \<lparr>px = 3, py = 0\<rparr>, \<lparr>px = 1, py = 0\<rparr>,
              \<lparr>px = 1 / 2, py = 1\<rparr>, \<lparr>px = - 1 / 2, py = 1\<rparr>, \<lparr>px = - 1 / 2, py = 1\<rparr>] True"
  using create_closed_wave_profile_capped_points [OF wave_points_one_wave, of 2 None]
  by (simp add: create_point_def)

lemma polyline_elements_length_closed:
  "2 \<le> length ps \<Longrightarrow> length (polyline_elements ps True) = length ps"
  by (simp add: polyline_elements_def)

text \<open>
  C2 as the specification states it, with nothing after the reversed corrugation points:
  for one wave of width 4 under a slab of depth 2 the builder's curve is not the closed
  polyline of that list, since it has one more element.
\<close>

theorem create_closed_wave_profile_extra_point_counterexample:
  "create_closed_wave_profile 4 4 2 1 1 (Some 2) None \<noteq>
   create_polyline
     ([\<lparr>px = - 1 / 2, py = 2\<rparr>, \<lparr>px = 7 / 2, py = 2\<rparr>, \<lparr>px = 7 / 2, py = 1\<rparr>]
      @ rev [\<lparr>px = - 1 / 2, py = 1\<rparr>, \<lparr>px = 1 / 2, py = 1\<rparr>, \<lparr>px = 1, py = 0\<rparr>,
          \<lparr>px = 3, py = 0\<rparr>, \<lparr>px = 7 / 2, py = 1\<rparr>]) True (Some ''Closed Wave Profile'')"
proof
  let ?short = "[\<lparr>px = - 1 / 2, py = 2\<rparr>, \<lparr>px = 7 / 2, py = 2\<rparr>, \<lparr>px = 7 / 2, py = 1\<rparr>]
      @ rev [\<lparr>px = - 1 / 2, py = 1\<rparr>, \<lparr>px = 1 / 2, py = 1\<rparr>, \<lparr>px = 1, py = 0\<rparr>,
          \<lparr>px = 3, py = 0\<rparr>, \<lparr>px = 7 / 2, py = 1\<rparr>]"
  let ?long = "?short @ [\<lparr>px = - 1 / 2, py = 1\<rparr>]"
  assume eq: "create_closed_wave_profile 4 4 2 1 1 (Some 2) None =
      create_polyline ?short True (Some ''Closed Wave Profile'')"
  have l: "create_closed_wave_profile 4 4 2 1 1 (Some 2) None =
      create_polyline ?long True (Some ''Closed Wave Profile'')"
    using create_closed_wave_profile_capped [OF wave_points_one_wave, of 2 None]
    by (simp add: create_point_def)
  have "2 \<le> length ?short" "2 \<le> length ?long" by simp_all
  from create_polyline_success [OF this(1), of True "Some ''Closed Wave Profile''"]
    create_polyline_success [OF this(2), of True "Some ''Closed Wave Profile''"] eq l
  have "polyline_elements ?long True = polyline_elements ?short True" by simp
  then have "length (polyline_elements ?long True) = length (polyline_elements ?short True)"
    by simp
  then show False by (simp add: polyline_elements_length_closed)
qed


end
